theory Spec2Isabelle
  imports Complex_Main
begin

section \<open>The OpenROV teleoperation node (teleop.cpp)\<close>

text \<open>
  The node turns joystick samples into thruster pulse widths, a light level and a laser
  toggle. Every \<open>double\<close> and \<open>float\<close> of the source is modelled as a \<open>real\<close>:
  arithmetic is exact, and there is no NaN, no infinity and no rounding. Every \<open>int\<close> is
  an \<open>int\<close>; the only place where a machine integer is produced from arithmetic is the
  conversion of a \<open>double\<close> to \<open>int\<close>, whose range check is written out.

  What C++ leaves undefined is a value of the model: an unchecked read outside a
  \<open>std::vector\<close>, the read of a local that was never assigned, the conversion of a
  \<open>double\<close> that does not fit an \<open>int\<close>, and a \<open>double\<close> operation of the thruster
  section whose result is not a finite \<open>double\<close>.
\<close>

subsection \<open>Undefined behaviour as a result\<close>

datatype undefined_behaviour =
    OutOfBoundsRead
  | UninitialisedRead
  | FloatToIntOverflow
  | DoubleOutOfRange

type_synonym 'a result = "undefined_behaviour + 'a"

definition bind_result :: "'a result \<Rightarrow> ('a \<Rightarrow> 'b result) \<Rightarrow> 'b result" where
  "bind_result m f = (case m of Inl e \<Rightarrow> Inl e | Inr x \<Rightarrow> f x)"

text \<open>\<open>v[i]\<close> on a \<open>std::vector\<close> with an \<open>int\<close> index: no bounds check; a negative
  index converts to a huge \<open>size_t\<close> and is out of range as well.\<close>

definition vector_at :: "'a list \<Rightarrow> int \<Rightarrow> 'a result" where
  "vector_at v i =
     (if 0 \<le> i \<and> i < int (length v) then Inr (v ! nat i) else Inl OutOfBoundsRead)"

subsection \<open>The range of \<open>double\<close>\<close>

text \<open>The largest finite \<open>double\<close>. Rounding is not modelled: it is the exact result of
  an operation that is compared with this bound.\<close>

definition DBL_MAX :: real where
  "DBL_MAX = 2 ^ 1024 - 2 ^ 971"

definition finite_double :: "real \<Rightarrow> bool" where
  "finite_double x \<longleftrightarrow> \<bar>x\<bar> \<le> DBL_MAX"

text \<open>The result of a \<open>double\<close> operation. When the exact result is beyond the largest
  finite \<open>double\<close>, the standard leaves the behaviour undefined; an IEEE 754 machine goes
  on with an infinity, which lines 131 to 149 turn into NaN, and the callback ends up
  returning the unassigned local of a thrust curve or converting NaN to \<open>int\<close>. The
  model stops there.\<close>

definition double_result :: "real \<Rightarrow> real result" where
  "double_result x = (if finite_double x then Inr x else Inl DoubleOutOfRange)"

subsection \<open>Library functions: \<open>round\<close> of math.h, conversion to \<open>int\<close>\<close>

text \<open>C's \<open>round\<close> rounds to the nearest integer, halfway cases away from zero, and
  returns a \<open>double\<close>.\<close>

definition c_round :: "real \<Rightarrow> real" where
  "c_round x = (if 0 \<le> x then of_int \<lfloor>x + 1 / 2\<rfloor> else - of_int \<lfloor>- x + 1 / 2\<rfloor>)"

text \<open>The implicit conversion \<open>double \<rightarrow> int\<close> (32 bits) truncates towards zero and is
  undefined when the truncated value does not fit.\<close>

definition double_to_int :: "real \<Rightarrow> int result" where
  "double_to_int x =
     (let t = (if 0 \<le> x then \<lfloor>x\<rfloor> else \<lceil>x\<rceil>)
      in if - 2147483648 \<le> t \<and> t \<le> 2147483647 then Inr t else Inl FloatToIntOverflow)"

subsection \<open>Library functions: 3x3 matrices of Eigen\<close>

type_synonym vec3 = "real \<times> real \<times> real"

text \<open>A \<open>Matrix3d\<close>, given by its rows.\<close>

type_synonym mat3 = "vec3 \<times> vec3 \<times> vec3"

fun mat_vec :: "mat3 \<Rightarrow> vec3 \<Rightarrow> vec3" where
  "mat_vec ((a11, a12, a13), (a21, a22, a23), (a31, a32, a33)) (x, y, z) =
     (a11 * x + a12 * y + a13 * z,
      a21 * x + a22 * y + a23 * z,
      a31 * x + a32 * y + a33 * z)"

fun determinant :: "mat3 \<Rightarrow> real" where
  "determinant ((a11, a12, a13), (a21, a22, a23), (a31, a32, a33)) =
     a11 * (a22 * a33 - a23 * a32)
     - a12 * (a21 * a33 - a23 * a31)
     + a13 * (a21 * a32 - a22 * a31)"

text \<open>\<open>inverse()\<close> of a fixed-size 3x3 matrix: the transposed cofactors, each times the
  reciprocal of the determinant.\<close>

fun mat_inverse :: "mat3 \<Rightarrow> mat3" where
  "mat_inverse ((a11, a12, a13), (a21, a22, a23), (a31, a32, a33)) =
     (let invdet = 1 / determinant ((a11, a12, a13), (a21, a22, a23), (a31, a32, a33))
      in (((a22 * a33 - a23 * a32) * invdet,
           (a13 * a32 - a12 * a33) * invdet,
           (a12 * a23 - a13 * a22) * invdet),
          ((a23 * a31 - a21 * a33) * invdet,
           (a11 * a33 - a13 * a31) * invdet,
           (a13 * a21 - a11 * a23) * invdet),
          ((a21 * a32 - a22 * a31) * invdet,
           (a12 * a31 - a11 * a32) * invdet,
           (a11 * a22 - a12 * a21) * invdet)))"

text \<open>The doubles that \<open>M.inverse()\<close> computes: the determinant, its reciprocal and the
  nine entries. (For the allocation matrix, whose entries are 0, 1, \<open>d\<close> and \<open>- d\<close>, the
  cofactors are 0, 1, \<open>- 1\<close>, \<open>d\<close> and \<open>2 * d\<close>: none is larger than 1 or the
  determinant.)\<close>

fun mat_entries :: "mat3 \<Rightarrow> real list" where
  "mat_entries ((a11, a12, a13), (a21, a22, a23), (a31, a32, a33)) =
     [a11, a12, a13, a21, a22, a23, a31, a32, a33]"

definition inverse_doubles :: "mat3 \<Rightarrow> real list" where
  "inverse_doubles M = [determinant M, 1 / determinant M] @ mat_entries (mat_inverse M)"

text \<open>The doubles that the product of a matrix and a vector computes: in each row the
  three products and their sums. (In every row of the inverse of the allocation matrix one
  entry is 0, so the order in which the three products are added does not change the
  values that occur.)\<close>

fun product_doubles :: "mat3 \<Rightarrow> vec3 \<Rightarrow> real list" where
  "product_doubles ((a11, a12, a13), (a21, a22, a23), (a31, a32, a33)) (x, y, z) =
     [a11 * x, a12 * y, a13 * z, a11 * x + a12 * y, a11 * x + a12 * y + a13 * z,
      a21 * x, a22 * y, a23 * z, a21 * x + a22 * y, a21 * x + a22 * y + a23 * z,
      a31 * x, a32 * y, a33 * z, a31 * x + a32 * y, a31 * x + a32 * y + a33 * z]"

subsection \<open>Messages\<close>

text \<open>\<open>sensor_msgs/Joy\<close>: \<open>float32[] axes\<close>, \<open>int32[] buttons\<close>.\<close>

record Joy =
  axes :: "real list"
  buttons :: "int list"

text \<open>\<open>openrov/motortarget\<close> is not part of the sources; the node writes
  \<open>motors[0]\<close>, \<open>motors[1]\<close>, \<open>motors[2]\<close>: port, vertical, starboard.\<close>

type_synonym motortarget = "int \<times> int \<times> int"

datatype published =
    MotorTarget motortarget
  | LightCommand real
  | LaserToggle int

subsection \<open>Thrust curves\<close>

text \<open>Both functions declare \<open>pctThrust\<close> without a value, assign it under three
  separate tests and return it.\<close>

definition computePctThrustGraupner230860 :: "real \<Rightarrow> real result" where
  "computePctThrustGraupner230860 fDes =
     (let pctThrust0 = None;
          pctThrust1 = (if fDes > 0 then Some (fDes / (147 / 10)) else pctThrust0);
          pctThrust2 = (if fDes < 0 then Some (fDes / 11) else pctThrust1);
          pctThrust3 = (if fDes = 0 then Some 0 else pctThrust2)
      in case pctThrust3 of None \<Rightarrow> Inl UninitialisedRead | Some p \<Rightarrow> Inr p)"

definition computePctThrustGraupner230357 :: "real \<Rightarrow> real result" where
  "computePctThrustGraupner230357 fDes =
     (let pctThrust0 = None;
          pctThrust1 = (if fDes > 0 then Some (fDes / (147 / 10)) else pctThrust0);
          pctThrust2 = (if fDes < 0 then Some (fDes / (147 / 10)) else pctThrust1);
          pctThrust3 = (if fDes = 0 then Some 0 else pctThrust2)
      in case pctThrust3 of None \<Rightarrow> Inl UninitialisedRead | Some p \<Rightarrow> Inr p)"

subsection \<open>Saturation\<close>

definition limitThrusterSaturation :: "real \<Rightarrow> real \<Rightarrow> real \<Rightarrow> real" where
  "limitThrusterSaturation Ppct_d Vpct_d Spct_d =
     (let mx = max (max Ppct_d Vpct_d) Spct_d;
          mn = min (min Ppct_d Vpct_d) Spct_d
      in if mn < - 1 \<or> mx > 1 then 1 / max \<bar>mn\<bar> mx else 1)"

subsection \<open>Pulse widths\<close>

text \<open>\<open>int Pms = 1500 + round((Ppct_d * scaleFactor) * 500)\<close>, written three times in
  \<open>joyCallback\<close>; the argument is the scaled fraction \<open>Ppct_d * scaleFactor\<close>.\<close>

definition pulse_ms :: "real \<Rightarrow> int result" where
  "pulse_ms x = double_to_int (1500 + c_round (x * 500))"

subsection \<open>The node object\<close>

text \<open>The parameter server, as far as the constructor asks it: each parameter is present
  or not. The names are the strings the constructor passes to \<open>nh.param\<close>.\<close>

record ParameterServer =
  X_stick :: "int option"
  Z_stick :: "int option"
  Yaw_stick :: "int option"
  lights_adj :: "int option"
  laser_tottle :: "int option"
  camera_tilt :: "int option"
  x_gain :: "real option"
  z_gain :: "real option"
  yaw_gain :: "real option"

text \<open>\<open>nh.param(name, var, default)\<close>: the stored value if there is one, else the default.\<close>

definition param :: "'a option \<Rightarrow> 'a \<Rightarrow> 'a" where
  "param stored default_val = (case stored of Some v \<Rightarrow> v | None \<Rightarrow> default_val)"

text \<open>The data members of \<open>class OpenROVTeleop\<close> (node handle, publishers, subscriber and
  timer apart). \<open>lightVal\<close> and \<open>laserToggle\<close> stand for the \<open>data\<close> field of the
  message they hold. \<open>A\<close> has no value until the first callback assigns it.\<close>

record OpenROVTeleop =
  x_controllerAxis :: int
  z_controllerAxis :: int
  yaw_controllerAxis :: int
  lightsAdjButton :: int
  laserToggleButton :: int
  camTiltButton :: int
  x_gain :: real
  z_gain :: real
  yaw_gain :: real
  motor_cmds :: motortarget
  d :: real
  lightVal :: real
  oldLightVal :: real
  laserToggle :: int
  oldLaserToggle :: int
  A :: "mat3 option"

definition OpenROVTeleop_ctor :: "ParameterServer \<Rightarrow> OpenROVTeleop" where
  "OpenROVTeleop_ctor nh =
     \<lparr> x_controllerAxis = param (X_stick nh) 1,
       z_controllerAxis = param (Z_stick nh) 4,
       yaw_controllerAxis = param (Yaw_stick nh) 0,
       lightsAdjButton = param (lights_adj nh) 6,
       laserToggleButton = param (laser_tottle nh) 4,
       camTiltButton = param (camera_tilt nh) 7,
       x_gain = param (ParameterServer.x_gain nh) 4,
       z_gain = param (ParameterServer.z_gain nh) 3,
       yaw_gain = param (ParameterServer.yaw_gain nh) (3 / 10),
       motor_cmds = (0, 0, 0),
       d = 45 / 1000,
       lightVal = 0,
       oldLightVal = 0,
       laserToggle = 0,
       oldLaserToggle = 0,
       A = None \<rparr>"

text \<open>A parameter server that holds none of the parameters: the defaults apply.\<close>

definition no_params :: ParameterServer where
  "no_params =
     \<lparr> X_stick = None, Z_stick = None, Yaw_stick = None, lights_adj = None,
       laser_tottle = None, camera_tilt = None, x_gain = None, z_gain = None,
       yaw_gain = None \<rparr>"

subsection \<open>\<open>joyCallback\<close>: the thruster section\<close>

text \<open>Lines 116 to 118: the desired wrench, read from the axes without a bounds check.
  A product beyond the range of \<open>double\<close> does not stop an IEEE 754 machine, which still
  makes the reads of the following lines: the three reads come first in the model, so that a
  read out of bounds is reported as such.\<close>

definition desired_wrench :: "OpenROVTeleop \<Rightarrow> Joy \<Rightarrow> vec3 result" where
  "desired_wrench self joy =
     bind_result (vector_at (axes joy) (x_controllerAxis self)) (\<lambda>ax.
     bind_result (vector_at (axes joy) (z_controllerAxis self)) (\<lambda>az.
     bind_result (vector_at (axes joy) (yaw_controllerAxis self)) (\<lambda>ayaw.
     bind_result (double_result (OpenROVTeleop.x_gain self * ax)) (\<lambda>fx_d.
     bind_result (double_result (OpenROVTeleop.z_gain self * az)) (\<lambda>fz_d.
     bind_result (double_result (OpenROVTeleop.yaw_gain self * ayaw)) (\<lambda>mz_d.
       Inr (fx_d, fz_d, mz_d)))))))"

text \<open>Lines 123 to 125: the thruster allocation matrix.\<close>

definition allocation_matrix :: "real \<Rightarrow> mat3" where
  "allocation_matrix dd = ((1, 0, 1), (0, 1, 0), (- dd, 0, dd))"

text \<open>Line 131: \<open>T = A.inverse() * F\<close>, over the reals.\<close>

definition thruster_forces :: "mat3 \<Rightarrow> vec3 \<Rightarrow> vec3" where
  "thruster_forces M F = mat_vec (mat_inverse M) F"

text \<open>Line 131 as the machine computes it: the value above, provided that the
  determinant is not zero and every \<open>double\<close> on the way is finite.\<close>

definition solve_allocation :: "mat3 \<Rightarrow> vec3 \<Rightarrow> vec3 result" where
  "solve_allocation M F =
     (if determinant M \<noteq> 0 \<and>
         list_all finite_double (inverse_doubles M @ product_doubles (mat_inverse M) F)
      then Inr (thruster_forces M F)
      else Inl DoubleOutOfRange)"

text \<open>Lines 135 to 137: the fraction of full thrust asked of each thruster.\<close>

definition pct_thrust :: "vec3 \<Rightarrow> vec3 result" where
  "pct_thrust T =
     (case T of (T0, T1, T2) \<Rightarrow>
        bind_result (computePctThrustGraupner230860 T0) (\<lambda>Ppct_d.
        bind_result (computePctThrustGraupner230357 T1) (\<lambda>Vpct_d.
        bind_result (computePctThrustGraupner230860 T2) (\<lambda>Spct_d.
          Inr (Ppct_d, Vpct_d, Spct_d)))))"

text \<open>Lines 143 to 151: the scale factor, then the three pulse widths.\<close>

definition esc_vals :: "vec3 \<Rightarrow> motortarget result" where
  "esc_vals pct =
     (case pct of (Ppct_d, Vpct_d, Spct_d) \<Rightarrow>
        let scaleFactor = limitThrusterSaturation Ppct_d Vpct_d Spct_d in
        bind_result (pulse_ms (Ppct_d * scaleFactor)) (\<lambda>Pms.
        bind_result (pulse_ms (Vpct_d * scaleFactor)) (\<lambda>Vms.
        bind_result (pulse_ms (Spct_d * scaleFactor)) (\<lambda>Sms.
          Inr (Pms, Vms, Sms)))))"

definition thruster_section :: "OpenROVTeleop \<Rightarrow> Joy \<Rightarrow> OpenROVTeleop result" where
  "thruster_section self joy =
     bind_result (desired_wrench self joy) (\<lambda>F.
       let M = allocation_matrix (d self);
           self1 = self\<lparr>A := Some M\<rparr>
       in bind_result (solve_allocation M F) (\<lambda>T.
          bind_result (pct_thrust T) (\<lambda>pct.
          bind_result (esc_vals pct) (\<lambda>cmds.
            Inr (self1\<lparr>motor_cmds := cmds\<rparr>)))))"

subsection \<open>\<open>joyCallback\<close>: lights and lasers\<close>

text \<open>Lines 162 to 174. The light level is published only when it differs from the one
  published last.\<close>

definition lights_section ::
    "OpenROVTeleop \<Rightarrow> Joy \<Rightarrow> (OpenROVTeleop \<times> published list) result" where
  "lights_section self joy =
     bind_result (vector_at (axes joy) (lightsAdjButton self)) (\<lambda>a.
       let l0 = lightVal self + a * (- (1 / 10));
           l1 = (if l0 > 1 then 1 else l0);
           l2 = (if l1 < 0 then 0 else l1);
           self1 = self\<lparr>lightVal := l2\<rparr>
       in if oldLightVal self1 \<noteq> lightVal self1
          then Inr (self1\<lparr>oldLightVal := lightVal self1\<rparr>, [LightCommand (lightVal self1)])
          else Inr (self1, []))"

text \<open>Lines 177 to 190.\<close>

definition lasers_section ::
    "OpenROVTeleop \<Rightarrow> Joy \<Rightarrow> (OpenROVTeleop \<times> published list) result" where
  "lasers_section self joy =
     bind_result (vector_at (buttons joy) (laserToggleButton self)) (\<lambda>b.
       if b \<noteq> 0 then
         if laserToggle self = oldLaserToggle self then
           let self1 = (if oldLaserToggle self = 0
                        then self\<lparr>laserToggle := 255\<rparr>
                        else self\<lparr>laserToggle := 0\<rparr>)
           in Inr (self1\<lparr>oldLaserToggle := laserToggle self1\<rparr>,
                   [LaserToggle (laserToggle self1)])
         else Inr (self, [])
       else Inr (self, []))"

subsection \<open>\<open>joyCallback\<close> and \<open>timerCallback\<close>\<close>

definition joyCallback ::
    "OpenROVTeleop \<Rightarrow> Joy \<Rightarrow> (OpenROVTeleop \<times> published list) result" where
  "joyCallback self joy =
     bind_result (thruster_section self joy) (\<lambda>self1.
     bind_result (lights_section self1 joy) (\<lambda>(self2, light_out).
     bind_result (lasers_section self2 joy) (\<lambda>(self3, laser_out).
       Inr (self3, light_out @ laser_out))))"

definition timerCallback :: "OpenROVTeleop \<Rightarrow> published list" where
  "timerCallback self = [MotorTarget (motor_cmds self)]"

text \<open>The node handles one sample after the other; what it publishes is collected in
  order.\<close>

fun spin :: "OpenROVTeleop \<Rightarrow> Joy list \<Rightarrow> (OpenROVTeleop \<times> published list) result" where
  "spin self [] = Inr (self, [])"
| "spin self (joy # joys) =
     bind_result (joyCallback self joy) (\<lambda>(self1, out1).
     bind_result (spin self1 joys) (\<lambda>(self2, out2).
       Inr (self2, out1 @ out2)))"

text \<open>The laser messages among the published ones.\<close>

fun laser_toggles :: "published list \<Rightarrow> int list" where
  "laser_toggles [] = []"
| "laser_toggles (LaserToggle v # ps) = v # laser_toggles ps"
| "laser_toggles (p # ps) = laser_toggles ps"

subsection \<open>Auxiliary predicates\<close>

text \<open>The members the constructor sets and \<open>joyCallback\<close> only reads.\<close>

definition same_settings :: "OpenROVTeleop \<Rightarrow> OpenROVTeleop \<Rightarrow> bool" where
  "same_settings s t \<longleftrightarrow>
     x_controllerAxis t = x_controllerAxis s \<and>
     z_controllerAxis t = z_controllerAxis s \<and>
     yaw_controllerAxis t = yaw_controllerAxis s \<and>
     lightsAdjButton t = lightsAdjButton s \<and>
     laserToggleButton t = laserToggleButton s \<and>
     camTiltButton t = camTiltButton s \<and>
     OpenROVTeleop.x_gain t = OpenROVTeleop.x_gain s \<and>
     OpenROVTeleop.z_gain t = OpenROVTeleop.z_gain s \<and>
     OpenROVTeleop.yaw_gain t = OpenROVTeleop.yaw_gain s \<and>
     d t = d s"

text \<open>Every \<open>double\<close> that lines 116 to 131 compute from a sample is finite.\<close>

definition stays_finite :: "OpenROVTeleop \<Rightarrow> Joy \<Rightarrow> bool" where
  "stays_finite self joy \<longleftrightarrow>
     (let fx_d = OpenROVTeleop.x_gain self * axes joy ! nat (x_controllerAxis self);
          fz_d = OpenROVTeleop.z_gain self * axes joy ! nat (z_controllerAxis self);
          mz_d = OpenROVTeleop.yaw_gain self * axes joy ! nat (yaw_controllerAxis self);
          M = allocation_matrix (d self)
      in finite_double fx_d \<and> finite_double fz_d \<and> finite_double mz_d \<and>
         determinant M \<noteq> 0 \<and>
         list_all finite_double
           (inverse_doubles M @ product_doubles (mat_inverse M) (fx_d, fz_d, mz_d)))"

text \<open>A sample has every channel that \<open>joyCallback\<close> reads: the three stick axes, the
  light axis and the laser button.\<close>

definition sample_fits :: "OpenROVTeleop \<Rightarrow> Joy \<Rightarrow> bool" where
  "sample_fits self joy \<longleftrightarrow>
     0 \<le> x_controllerAxis self \<and> x_controllerAxis self < int (length (axes joy)) \<and>
     0 \<le> z_controllerAxis self \<and> z_controllerAxis self < int (length (axes joy)) \<and>
     0 \<le> yaw_controllerAxis self \<and> yaw_controllerAxis self < int (length (axes joy)) \<and>
     0 \<le> lightsAdjButton self \<and> lightsAdjButton self < int (length (axes joy)) \<and>
     0 \<le> laserToggleButton self \<and> laserToggleButton self < int (length (buttons joy))"

section \<open>Properties\<close>

subsection \<open>Results and reads\<close>

lemma bind_result_Inr [simp]: "bind_result (Inr x) f = f x"
  by (simp add: bind_result_def)

lemma bind_result_Inl [simp]: "bind_result (Inl e) f = Inl e"
  by (simp add: bind_result_def)

lemma bind_result_eq_Inr:
  "bind_result m f = Inr y \<longleftrightarrow> (\<exists>x. m = Inr x \<and> f x = Inr y)"
  by (cases m) simp_all

lemma vector_at_Inr:
  "0 \<le> i \<Longrightarrow> i < int (length v) \<Longrightarrow> vector_at v i = Inr (v ! nat i)"
  by (simp add: vector_at_def)

lemma vector_at_Inl:
  "\<not> (0 \<le> i \<and> i < int (length v)) \<Longrightarrow> vector_at v i = Inl OutOfBoundsRead"
  by (simp add: vector_at_def)

subsection \<open>The range of \<open>double\<close>\<close>

lemma DBL_MAX_ge_1000: "1000 \<le> DBL_MAX"
  unfolding DBL_MAX_def by simp

lemma DBL_MAX_lower: "100 * 10 ^ 300 \<le> DBL_MAX"
  unfolding DBL_MAX_def by simp

lemma DBL_MAX_upper: "DBL_MAX < 10 ^ 309"
  unfolding DBL_MAX_def by simp

lemma finite_double_small: "\<bar>x\<bar> \<le> 1000 \<Longrightarrow> finite_double x"
  unfolding finite_double_def by (erule order_trans) (rule DBL_MAX_ge_1000)

lemma not_finite_double_large: "10 ^ 309 \<le> \<bar>x\<bar> \<Longrightarrow> \<not> finite_double x"
  unfolding finite_double_def not_le by (rule less_le_trans [OF DBL_MAX_upper])

lemma double_result_finite: "finite_double x \<Longrightarrow> double_result x = Inr x"
  by (simp add: double_result_def)

lemma double_result_eq_Inr: "double_result x = Inr y \<longleftrightarrow> finite_double x \<and> y = x"
  by (auto simp: double_result_def)

subsection \<open>Rounding and conversion\<close>

lemma c_round_nonneg: "0 \<le> x \<Longrightarrow> c_round x = of_int \<lfloor>x + 1 / 2\<rfloor>"
  by (simp add: c_round_def)

lemma c_round_neg: "x < 0 \<Longrightarrow> c_round x = of_int \<lceil>x - 1 / 2\<rceil>"
  by (simp add: c_round_def ceiling_def)

lemma c_round_zero: "c_round 0 = 0"
  by (simp add: c_round_def)

lemma c_round_mono: "x \<le> y \<Longrightarrow> c_round x \<le> c_round y"
proof -
  assume xy: "x \<le> y"
  consider "0 \<le> x" | "x < 0" "y < 0" | "x < 0" "0 \<le> y" by linarith
  then show ?thesis
  proof cases
    case 1
    with xy have "0 \<le> y" by simp
    with 1 xy show ?thesis by (simp add: c_round_nonneg floor_mono)
  next
    case 2
    with xy show ?thesis by (simp add: c_round_neg ceiling_mono)
  next
    case 3
    have "c_round x \<le> 0" using 3(1) by (simp add: c_round_neg ceiling_le_iff) 
    moreover have "0 \<le> c_round y" using 3(2) by (simp add: c_round_nonneg)
    ultimately show ?thesis by simp
  qed
qed

lemma c_round_of_int: "c_round (of_int k) = of_int k"
proof -
  have "\<lfloor>real_of_int k + 1 / 2\<rfloor> = k" by linarith
  moreover have "\<lfloor>- real_of_int k + 1 / 2\<rfloor> = - k" by linarith
  ultimately show ?thesis by (simp add: c_round_def)
qed

lemma c_round_is_int: "\<exists>k. c_round x = of_int k"
  unfolding c_round_def by (metis of_int_minus)

lemma double_to_int_of_int:
  "- 2147483648 \<le> k \<Longrightarrow> k \<le> 2147483647 \<Longrightarrow> double_to_int (of_int k) = Inr k"
  by (simp add: double_to_int_def)

lemma pulse_ms_range:
  assumes "- 1 \<le> x" "x \<le> 1"
  shows "\<exists>k. pulse_ms x = Inr k \<and> 1000 \<le> k \<and> k \<le> 2000 \<and> real_of_int k = 1500 + c_round (x * 500)"
proof -
  obtain j where j: "c_round (x * 500) = of_int j" using c_round_is_int by blast
  have "c_round (- 500) \<le> c_round (x * 500)" using assms by (intro c_round_mono) simp
  moreover have "c_round (x * 500) \<le> c_round 500" using assms by (intro c_round_mono) simp
  moreover have "c_round (- 500) = - 500" "c_round 500 = 500"
    using c_round_of_int [of "- 500"] c_round_of_int [of 500] by simp_all
  ultimately have jb: "- 500 \<le> j" "j \<le> 500" using j by simp_all
  have "1500 + c_round (x * 500) = of_int (1500 + j)" using j by simp
  then have "pulse_ms x = double_to_int (of_int (1500 + j))" by (simp add: pulse_ms_def)
  also have "\<dots> = Inr (1500 + j)" using jb by (intro double_to_int_of_int) simp_all
  finally show ?thesis using jb j by simp
qed

lemma pulse_ms_mono_aux:
  assumes "- 1 \<le> x" "x \<le> y" "y \<le> 1"
  shows "\<exists>a b. pulse_ms x = Inr a \<and> pulse_ms y = Inr b \<and> a \<le> b"
proof -
  from assms have "x \<le> 1" "- 1 \<le> y" by simp_all
  obtain a where a: "pulse_ms x = Inr a" "real_of_int a = 1500 + c_round (x * 500)"
    using pulse_ms_range [OF assms(1) \<open>x \<le> 1\<close>] by blast
  obtain b where b: "pulse_ms y = Inr b" "real_of_int b = 1500 + c_round (y * 500)"
    using pulse_ms_range [OF \<open>- 1 \<le> y\<close> assms(3)] by blast
  have "c_round (x * 500) \<le> c_round (y * 500)" using assms(2) by (intro c_round_mono) simp
  then have "real_of_int a \<le> real_of_int b" using a b by simp
  then have "a \<le> b" by simp
  with a b show ?thesis by blast
qed

lemma pulse_ms_0: "pulse_ms 0 = Inr 1500"
  by (simp add: pulse_ms_def c_round_zero double_to_int_def)

subsection \<open>Thrust curves\<close>

lemma computePctThrustGraupner230860_eq:
  "computePctThrustGraupner230860 f =
     Inr (if f > 0 then f / (147 / 10) else if f < 0 then f / 11 else 0)"
  by (simp add: computePctThrustGraupner230860_def)

lemma computePctThrustGraupner230357_eq:
  "computePctThrustGraupner230357 f = Inr (if f = 0 then 0 else f / (147 / 10))"
  by (simp add: computePctThrustGraupner230357_def)

text \<open>
  Claim C4. For every force \<open>f\<close>, the port/starboard curve returns \<open>f / 14.7\<close> when
  \<open>f > 0\<close>, \<open>f / 11\<close> when \<open>f < 0\<close> and \<open>0\<close> when \<open>f = 0\<close>; the vertical curve
  returns \<open>f / 14.7\<close> for every nonzero \<open>f\<close> and \<open>0\<close> when \<open>f = 0\<close>. In particular the
  local \<open>pctThrust\<close> is always assigned before it is returned.
\<close>

theorem thrust_curves:
  "(f > 0 \<longrightarrow> computePctThrustGraupner230860 f = Inr (f / (147 / 10))) \<and>
   (f < 0 \<longrightarrow> computePctThrustGraupner230860 f = Inr (f / 11)) \<and>
   (f = 0 \<longrightarrow> computePctThrustGraupner230860 f = Inr 0) \<and>
   (f \<noteq> 0 \<longrightarrow> computePctThrustGraupner230357 f = Inr (f / (147 / 10))) \<and>
   (f = 0 \<longrightarrow> computePctThrustGraupner230357 f = Inr 0)"
  by (simp add: computePctThrustGraupner230860_def computePctThrustGraupner230357_def)

theorem thrust_curves_witness:
  "computePctThrustGraupner230860 (147 / 10) = Inr 1 \<and>
   computePctThrustGraupner230860 (- 11) = Inr (- 1) \<and>
   computePctThrustGraupner230860 0 = Inr 0 \<and>
   computePctThrustGraupner230357 (- (147 / 10)) = Inr (- 1) \<and>
   computePctThrustGraupner230357 0 = Inr 0"
  using thrust_curves [of "147 / 10"] thrust_curves [of "- 11"] thrust_curves [of 0]
    thrust_curves [of "- (147 / 10)"]
  by simp

lemma pct_thrust_total: "\<exists>p v s. pct_thrust T = Inr (p, v, s)"
  by (cases T)
    (simp add: pct_thrust_def computePctThrustGraupner230860_eq
      computePctThrustGraupner230357_eq)

subsection \<open>Saturation\<close>

lemma saturation_scale_pos: "0 < limitThrusterSaturation p v s"
  by (auto simp: limitThrusterSaturation_def Let_def)

lemma saturation_scale_le_1: "limitThrusterSaturation p v s \<le> 1"
  by (auto simp: limitThrusterSaturation_def Let_def)

lemma abs_le_max_abs: "lo \<le> x \<Longrightarrow> x \<le> hi \<Longrightarrow> \<bar>x\<bar> \<le> max \<bar>lo\<bar> (hi::real)"
  by linarith

lemma scaled_in_range:
  assumes "min (min p v) s \<le> x" "x \<le> max (max p v) s"
  shows "\<bar>x * limitThrusterSaturation p v s\<bar> \<le> 1"
proof (cases "min (min p v) s < - 1 \<or> max (max p v) s > 1")
  case True
  define m where "m = max \<bar>min (min p v) s\<bar> (max (max p v) s)"
  have m1: "1 < m" using True by (auto simp: m_def)
  have "\<bar>x\<bar> \<le> m" unfolding m_def using assms by (rule abs_le_max_abs)
  then have "\<bar>x\<bar> / m \<le> 1" using m1 by simp
  moreover have "limitThrusterSaturation p v s = 1 / m"
    using True by (simp add: limitThrusterSaturation_def m_def Let_def)
  ultimately show ?thesis using m1 by (simp add: abs_mult)
next
  case False
  then have "limitThrusterSaturation p v s = 1"
    by (simp add: limitThrusterSaturation_def Let_def)
  moreover have "\<bar>x\<bar> \<le> 1" using False assms by auto
  ultimately show ?thesis by simp
qed

lemma unsaturated_scale:
  "\<bar>p\<bar> \<le> 1 \<Longrightarrow> \<bar>v\<bar> \<le> 1 \<Longrightarrow> \<bar>s\<bar> \<le> 1 \<Longrightarrow> limitThrusterSaturation p v s = 1"
  by (auto simp: limitThrusterSaturation_def Let_def)

text \<open>
  Claim C2. For every triple of fractions, each fraction times the scale returned by
  \<open>limitThrusterSaturation\<close> lies in \<open>[-1, 1]\<close>; the scale is one positive number for
  all three, so their ratios are kept; and when the three fractions already lie in
  \<open>[-1, 1]\<close> the scale is exactly 1.
\<close>

theorem saturation_limit:
  "\<bar>p * limitThrusterSaturation p v s\<bar> \<le> 1 \<and>
   \<bar>v * limitThrusterSaturation p v s\<bar> \<le> 1 \<and>
   \<bar>s * limitThrusterSaturation p v s\<bar> \<le> 1 \<and>
   0 < limitThrusterSaturation p v s \<and>
   (\<bar>p\<bar> \<le> 1 \<and> \<bar>v\<bar> \<le> 1 \<and> \<bar>s\<bar> \<le> 1 \<longrightarrow> limitThrusterSaturation p v s = 1)"
proof -
  have "\<bar>p * limitThrusterSaturation p v s\<bar> \<le> 1" by (rule scaled_in_range) simp_all
  moreover have "\<bar>v * limitThrusterSaturation p v s\<bar> \<le> 1" by (rule scaled_in_range) simp_all
  moreover have "\<bar>s * limitThrusterSaturation p v s\<bar> \<le> 1" by (rule scaled_in_range) simp_all
  ultimately show ?thesis using saturation_scale_pos unsaturated_scale by blast
qed

text \<open>Scenario C of the specification.\<close>

lemma scenario_C: "limitThrusterSaturation (3/2) (1/5) (- (13/10)) = 2/3"
  by (simp add: limitThrusterSaturation_def)

theorem saturation_limit_witness:
  "limitThrusterSaturation (1 / 2) (1 / 5) (- 1) = 1 \<and>
   limitThrusterSaturation (3 / 2) (1 / 5) (- (13 / 10)) = 2 / 3 \<and>
   \<bar>3 / 2 * limitThrusterSaturation (3 / 2) (1 / 5) (- (13 / 10))\<bar> \<le> (1::real)"
  using saturation_limit [of "1 / 2" "1 / 5" "- 1"]
    saturation_limit [of "3 / 2" "1 / 5" "- (13 / 10)"]
  by (simp add: limitThrusterSaturation_def)

subsection \<open>Allocation\<close>


lemma determinant_allocation_matrix: "determinant (allocation_matrix dd) = 2 * dd"
  by (simp add: allocation_matrix_def)


lemma thruster_forces_closed_form:
  "dd \<noteq> 0 \<Longrightarrow>
   thruster_forces (allocation_matrix dd) (fx, fz, mz) =
     (fx / 2 - mz / (2 * dd), fz, fx / 2 + mz / (2 * dd))"
  by (simp add: allocation_matrix_def thruster_forces_def Let_def field_simps)

lemma ctor_d: "d (OpenROVTeleop_ctor nh) = 45 / 1000"
  by (simp add: OpenROVTeleop_ctor_def)



subsection \<open>Pulse widths\<close>

text \<open>
  Claim C7. The pulse width \<open>1500 + round(x * 500)\<close> does not decrease when the
  fraction \<open>x\<close> grows within \<open>[-1, 1]\<close>, the conversion to \<open>int\<close> is defined there, and
  the fraction 0 gives exactly 1500.
\<close>

theorem pulse_ms_monotone:
  assumes "- 1 \<le> x" "x \<le> y" "y \<le> 1"
  shows "(\<exists>a b. pulse_ms x = Inr a \<and> pulse_ms y = Inr b \<and> a \<le> b) \<and> pulse_ms 0 = Inr 1500"
  using pulse_ms_mono_aux [OF assms] pulse_ms_0 by simp

theorem pulse_ms_monotone_witness:
  "pulse_ms (- (1 / 2)) = Inr 1250 \<and> pulse_ms (1 / 2) = Inr 1750 \<and> pulse_ms 0 = Inr 1500"
  using pulse_ms_monotone [of "- (1 / 2)" "1 / 2"]
  by (simp add: pulse_ms_def c_round_def double_to_int_def)

subsection \<open>Scenario B\<close>

lemma scenario_B_wrench:
  "desired_wrench (OpenROVTeleop_ctor no_params) \<lparr> axes = [0, 1, 0, 0, 0, 0, 0], buttons = [0, 0, 0, 0, 0] \<rparr> = Inr (4, 0, 0)"
  by (simp add: desired_wrench_def OpenROVTeleop_ctor_def no_params_def param_def vector_at_def
      double_result_finite finite_double_small)

lemma scenario_B_forces:
  "thruster_forces (allocation_matrix (45 / 1000)) (4, 0, 0) = (2, 0, 2)"
  by (simp add: thruster_forces_closed_form)

lemma scenario_B_solve:
  "solve_allocation (allocation_matrix (45 / 1000)) (4, 0, 0) = Inr (2, 0, 2)"
  using scenario_B_forces
  by (simp add: solve_allocation_def inverse_doubles_def allocation_matrix_def Let_def
      finite_double_small)

lemma scenario_B_pct:
  "pct_thrust (2, 0, 2) = Inr (2 / (147 / 10), 0, 2 / (147 / 10))"
  by (simp add: pct_thrust_def computePctThrustGraupner230860_eq computePctThrustGraupner230357_eq)

lemma scenario_B_scale:
  "limitThrusterSaturation (2 / (147 / 10)) 0 (2 / (147 / 10)) = 1"
  by (simp add: limitThrusterSaturation_def)

lemma scenario_B_pulse: "pulse_ms (2 / (147 / 10)) = Inr 1568"
  by (simp add: pulse_ms_def c_round_def double_to_int_def)

lemma scenario_B_esc:
  "esc_vals (2 / (147 / 10), 0, 2 / (147 / 10)) = Inr (1568, 1500, 1568)"
  using scenario_B_scale scenario_B_pulse pulse_ms_0 by (simp add: esc_vals_def)



lemma scenario_B_thrusters:
  "thruster_section (OpenROVTeleop_ctor no_params)
     \<lparr> axes = [0, 1, 0, 0, 0, 0, 0], buttons = [0, 0, 0, 0, 0] \<rparr> =
   Inr ((OpenROVTeleop_ctor no_params)
     \<lparr> A := Some (allocation_matrix (45 / 1000)), motor_cmds := (1568, 1500, 1568) \<rparr>)"
  unfolding thruster_section_def scenario_B_wrench bind_result_Inr Let_def
    scenario_B_solve scenario_B_pct scenario_B_esc ctor_d
  by (rule refl)


lemma scenario_B_callback:
  "joyCallback (OpenROVTeleop_ctor no_params)
     \<lparr> axes = [0, 1, 0, 0, 0, 0, 0], buttons = [0, 0, 0, 0, 0] \<rparr> =
   Inr ((OpenROVTeleop_ctor no_params)
     \<lparr> A := Some (allocation_matrix (45 / 1000)), motor_cmds := (1568, 1500, 1568) \<rparr>, [])"
  unfolding joyCallback_def scenario_B_thrusters bind_result_Inr
  by (simp add: lights_section_def lasers_section_def
      vector_at_def OpenROVTeleop_ctor_def no_params_def param_def)

text \<open>
  Claim C5. With the default settings (forward gain 4, offset 0.045), the sample with
  forward axis 1 and every other axis 0 gives the wrench \<open>(4, 0, 0)\<close>, the thruster forces
  \<open>(2, 0, 2)\<close>, the fractions \<open>(2 / 14.7, 0, 2 / 14.7)\<close>, the scale 1 and the motor
  command \<open>(1568, 1500, 1568)\<close>; nothing is published for light or laser.
\<close>

theorem scenario_B_pipeline:
  "desired_wrench (OpenROVTeleop_ctor no_params)
     \<lparr> axes = [0, 1, 0, 0, 0, 0, 0], buttons = [0, 0, 0, 0, 0] \<rparr> = Inr (4, 0, 0) \<and>
   thruster_forces (allocation_matrix (45 / 1000)) (4, 0, 0) = (2, 0, 2) \<and>
   pct_thrust (2, 0, 2) = Inr (2 / (147 / 10), 0, 2 / (147 / 10)) \<and>
   limitThrusterSaturation (2 / (147 / 10)) 0 (2 / (147 / 10)) = 1 \<and>
   joyCallback (OpenROVTeleop_ctor no_params)
     \<lparr> axes = [0, 1, 0, 0, 0, 0, 0], buttons = [0, 0, 0, 0, 0] \<rparr> =
   Inr ((OpenROVTeleop_ctor no_params)
     \<lparr> A := Some (allocation_matrix (45 / 1000)), motor_cmds := (1568, 1500, 1568) \<rparr>, [])"
  using scenario_B_wrench scenario_B_forces scenario_B_pct scenario_B_scale scenario_B_callback
  by blast

subsection \<open>One callback\<close>

lemma same_settings_refl: "same_settings s s"
  by (simp add: same_settings_def)

lemma same_settings_trans: "same_settings s t \<Longrightarrow> same_settings t u \<Longrightarrow> same_settings s u"
  by (simp add: same_settings_def)

lemma esc_vals_range:
  "\<exists>P V S. esc_vals (p, v, s) = Inr (P, V, S) \<and>
     1000 \<le> P \<and> P \<le> 2000 \<and> 1000 \<le> V \<and> V \<le> 2000 \<and> 1000 \<le> S \<and> S \<le> 2000"
proof -
  define k where "k = limitThrusterSaturation p v s"
  have "\<bar>p * k\<bar> \<le> 1" unfolding k_def by (rule scaled_in_range) simp_all
  then obtain P where P: "pulse_ms (p * k) = Inr P" "1000 \<le> P" "P \<le> 2000"
    using pulse_ms_range [of "p * k"] by (auto simp: abs_le_iff)
  have "\<bar>v * k\<bar> \<le> 1" unfolding k_def by (rule scaled_in_range) simp_all
  then obtain V where V: "pulse_ms (v * k) = Inr V" "1000 \<le> V" "V \<le> 2000"
    using pulse_ms_range [of "v * k"] by (auto simp: abs_le_iff)
  have "\<bar>s * k\<bar> \<le> 1" unfolding k_def by (rule scaled_in_range) simp_all
  then obtain S where S: "pulse_ms (s * k) = Inr S" "1000 \<le> S" "S \<le> 2000"
    using pulse_ms_range [of "s * k"] by (auto simp: abs_le_iff)
  have "esc_vals (p, v, s) = Inr (P, V, S)"
    using P(1) V(1) S(1) by (simp add: esc_vals_def k_def [symmetric] Let_def)
  with P V S show ?thesis by blast
qed

lemma thruster_section_Inr:
  assumes "thruster_section self joy = Inr self'"
  shows "\<exists>P V S. self' = self\<lparr>A := Some (allocation_matrix (d self)), motor_cmds := (P, V, S)\<rparr> \<and>
     1000 \<le> P \<and> P \<le> 2000 \<and> 1000 \<le> V \<and> V \<le> 2000 \<and> 1000 \<le> S \<and> S \<le> 2000"
proof -
  from assms obtain F T pct cmds where
    "desired_wrench self joy = Inr F"
    "solve_allocation (allocation_matrix (d self)) F = Inr T"
    "pct_thrust T = Inr pct"
    "esc_vals pct = Inr cmds"
    and self': "self' = self\<lparr>A := Some (allocation_matrix (d self)), motor_cmds := cmds\<rparr>"
    unfolding thruster_section_def Let_def bind_result_eq_Inr by auto
  obtain p v s where "pct = (p, v, s)" by (cases pct)
  with \<open>esc_vals pct = Inr cmds\<close> esc_vals_range [of p v s] self' show ?thesis by auto
qed

lemma desired_wrench_returns:
  assumes "0 \<le> x_controllerAxis self" "x_controllerAxis self < int (length (axes joy))"
    and "0 \<le> z_controllerAxis self" "z_controllerAxis self < int (length (axes joy))"
    and "0 \<le> yaw_controllerAxis self" "yaw_controllerAxis self < int (length (axes joy))"
    and "finite_double (OpenROVTeleop.x_gain self * axes joy ! nat (x_controllerAxis self))"
    and "finite_double (OpenROVTeleop.z_gain self * axes joy ! nat (z_controllerAxis self))"
    and "finite_double (OpenROVTeleop.yaw_gain self * axes joy ! nat (yaw_controllerAxis self))"
  shows "desired_wrench self joy =
     Inr (OpenROVTeleop.x_gain self * axes joy ! nat (x_controllerAxis self),
          OpenROVTeleop.z_gain self * axes joy ! nat (z_controllerAxis self),
          OpenROVTeleop.yaw_gain self * axes joy ! nat (yaw_controllerAxis self))"
  using assms by (simp add: desired_wrench_def vector_at_def double_result_finite)

lemma thruster_section_returns:
  assumes "desired_wrench self joy = Inr F"
    and "solve_allocation (allocation_matrix (d self)) F = Inr T"
  shows "\<exists>self'. thruster_section self joy = Inr self'"
proof -
  obtain p v s where pct: "pct_thrust T = Inr (p, v, s)"
    using pct_thrust_total by blast
  obtain P V S where "esc_vals (p, v, s) = Inr (P, V, S)" using esc_vals_range by blast
  with assms pct show ?thesis by (simp add: thruster_section_def Let_def)
qed

text \<open>With every channel present, the thruster section returns exactly when its doubles
  stay finite.\<close>

lemma thruster_section_finite:
  assumes "0 \<le> x_controllerAxis self" "x_controllerAxis self < int (length (axes joy))"
    and "0 \<le> z_controllerAxis self" "z_controllerAxis self < int (length (axes joy))"
    and "0 \<le> yaw_controllerAxis self" "yaw_controllerAxis self < int (length (axes joy))"
    and "stays_finite self joy"
  shows "\<exists>self'. thruster_section self joy = Inr self'"
proof -
  let ?F = "(OpenROVTeleop.x_gain self * axes joy ! nat (x_controllerAxis self),
          OpenROVTeleop.z_gain self * axes joy ! nat (z_controllerAxis self),
          OpenROVTeleop.yaw_gain self * axes joy ! nat (yaw_controllerAxis self))"
  from assms(7) have w: "desired_wrench self joy = Inr ?F"
    by (intro desired_wrench_returns assms(1-6)) (simp_all add: stays_finite_def Let_def)
  from assms(7) have
    "solve_allocation (allocation_matrix (d self)) ?F =
       Inr (thruster_forces (allocation_matrix (d self)) ?F)"
    by (simp add: stays_finite_def solve_allocation_def Let_def)
  with w show ?thesis by (rule thruster_section_returns)
qed

lemma thruster_section_not_finite:
  assumes "0 \<le> x_controllerAxis self" "x_controllerAxis self < int (length (axes joy))"
    and "0 \<le> z_controllerAxis self" "z_controllerAxis self < int (length (axes joy))"
    and "0 \<le> yaw_controllerAxis self" "yaw_controllerAxis self < int (length (axes joy))"
    and "\<not> stays_finite self joy"
  shows "thruster_section self joy = Inl DoubleOutOfRange"
  using assms
  by (auto simp: thruster_section_def desired_wrench_def vector_at_def double_result_def
      solve_allocation_def stays_finite_def Let_def)

lemma lights_section_Inr:
  assumes "lights_section self joy = Inr (self', out)"
  shows "0 \<le> lightVal self' \<and> lightVal self' \<le> 1 \<and> same_settings self self' \<and>
     motor_cmds self' = motor_cmds self \<and> laserToggle self' = laserToggle self \<and>
     oldLaserToggle self' = oldLaserToggle self"
  using assms
  by (auto simp: lights_section_def bind_result_eq_Inr Let_def same_settings_def
      split: if_splits)

lemma lights_section_returns:
  assumes "0 \<le> lightsAdjButton self" "lightsAdjButton self < int (length (axes joy))"
  shows "\<exists>self' out. lights_section self joy = Inr (self', out)"
  using assms by (simp add: lights_section_def vector_at_def Let_def)

lemma lasers_section_Inr:
  assumes "lasers_section self joy = Inr (self', out)"
  shows "same_settings self self' \<and> motor_cmds self' = motor_cmds self \<and>
     lightVal self' = lightVal self \<and>
     (laserToggle self = oldLaserToggle self \<longrightarrow> laserToggle self' = oldLaserToggle self')"
  using assms
  by (auto simp: lasers_section_def bind_result_eq_Inr Let_def same_settings_def
      split: if_splits)

lemma lasers_section_returns:
  assumes "0 \<le> laserToggleButton self" "laserToggleButton self < int (length (buttons joy))"
  shows "\<exists>self' out. lasers_section self joy = Inr (self', out)"
  using assms by (simp add: lasers_section_def vector_at_def Let_def)

lemma joyCallback_Inr:
  assumes "joyCallback self joy = Inr (self', out)"
  shows "same_settings self self'"
    and "\<exists>P V S. motor_cmds self' = (P, V, S) \<and>
       1000 \<le> P \<and> P \<le> 2000 \<and> 1000 \<le> V \<and> V \<le> 2000 \<and> 1000 \<le> S \<and> S \<le> 2000"
    and "0 \<le> lightVal self'" and "lightVal self' \<le> 1"
    and "laserToggle self = oldLaserToggle self \<Longrightarrow> laserToggle self' = oldLaserToggle self'"
proof -
  from assms obtain s1 s2 o2 o3 where
    t: "thruster_section self joy = Inr s1" and
    l: "lights_section s1 joy = Inr (s2, o2)" and
    z: "lasers_section s2 joy = Inr (self', o3)"
    by (auto simp: joyCallback_def bind_result_eq_Inr split: prod.splits)
  from thruster_section_Inr [OF t] obtain P V S where
    s1: "s1 = self\<lparr>A := Some (allocation_matrix (d self)), motor_cmds := (P, V, S)\<rparr>"
    and r: "1000 \<le> P" "P \<le> 2000" "1000 \<le> V" "V \<le> 2000" "1000 \<le> S" "S \<le> 2000"
    by blast
  note L = lights_section_Inr [OF l]
  note Z = lasers_section_Inr [OF z]
  have "same_settings self s1" by (simp add: s1 same_settings_def)
  with L Z show "same_settings self self'" by (blast intro: same_settings_trans)
  have "motor_cmds self' = (P, V, S)" using L Z by (simp add: s1)
  with r show "\<exists>P V S. motor_cmds self' = (P, V, S) \<and>
       1000 \<le> P \<and> P \<le> 2000 \<and> 1000 \<le> V \<and> V \<le> 2000 \<and> 1000 \<le> S \<and> S \<le> 2000"
    by blast
  show "0 \<le> lightVal self'" "lightVal self' \<le> 1" using L Z by simp_all
  show "laserToggle self' = oldLaserToggle self'" if "laserToggle self = oldLaserToggle self"
    using that L Z by (simp add: s1)
qed

lemma joyCallback_returns:
  assumes "0 \<le> x_controllerAxis self" "x_controllerAxis self < int (length (axes joy))"
    and "0 \<le> z_controllerAxis self" "z_controllerAxis self < int (length (axes joy))"
    and "0 \<le> yaw_controllerAxis self" "yaw_controllerAxis self < int (length (axes joy))"
    and "0 \<le> lightsAdjButton self" "lightsAdjButton self < int (length (axes joy))"
    and "0 \<le> laserToggleButton self" "laserToggleButton self < int (length (buttons joy))"
    and "stays_finite self joy"
  shows "\<exists>self' out. joyCallback self joy = Inr (self', out)"
proof -
  from thruster_section_finite [OF assms(1-6) assms(11)]
  obtain s1 where t: "thruster_section self joy = Inr s1" by blast
  from thruster_section_Inr [OF t] have
    "lightsAdjButton s1 = lightsAdjButton self" by auto
  with assms(7,8) lights_section_returns [of s1 joy]
  obtain s2 o2 where l: "lights_section s1 joy = Inr (s2, o2)" by auto
  from thruster_section_Inr [OF t] lights_section_Inr [OF l]
  have "laserToggleButton s2 = laserToggleButton self" by (auto simp: same_settings_def)
  with assms(9,10) lasers_section_returns [of s2 joy]
  obtain s3 o3 where z: "lasers_section s2 joy = Inr (s3, o3)" by auto
  show ?thesis by (simp add: joyCallback_def t l z)
qed

subsection \<open>A sequence of callbacks\<close>

lemma sample_fits_same_settings:
  "same_settings s t \<Longrightarrow> sample_fits t joy = sample_fits s joy"
  by (simp add: same_settings_def sample_fits_def)

lemma stays_finite_same_settings:
  "same_settings s t \<Longrightarrow> stays_finite t joy = stays_finite s joy"
  by (simp add: same_settings_def stays_finite_def)

lemma joyCallback_returns_fits:
  "sample_fits self joy \<Longrightarrow> stays_finite self joy \<Longrightarrow>
   \<exists>self' out. joyCallback self joy = Inr (self', out)"
  unfolding sample_fits_def by (intro joyCallback_returns) simp_all

lemma joyCallback_not_finite:
  "sample_fits self joy \<Longrightarrow> \<not> stays_finite self joy \<Longrightarrow>
   joyCallback self joy = Inl DoubleOutOfRange"
  unfolding sample_fits_def by (simp add: joyCallback_def thruster_section_not_finite)

text \<open>With the offset the constructor sets, a wrench whose components are below
  \<open>10 ^ 300\<close> in magnitude keeps every double finite.\<close>

lemma stays_finite_bounded:
  assumes "d self = 45 / 1000"
    and "\<bar>OpenROVTeleop.x_gain self * axes joy ! nat (x_controllerAxis self)\<bar> \<le> 10 ^ 300"
    and "\<bar>OpenROVTeleop.z_gain self * axes joy ! nat (z_controllerAxis self)\<bar> \<le> 10 ^ 300"
    and "\<bar>OpenROVTeleop.yaw_gain self * axes joy ! nat (yaw_controllerAxis self)\<bar> \<le> 10 ^ 300"
  shows "stays_finite self joy"
proof -
  define fx where "fx = OpenROVTeleop.x_gain self * axes joy ! nat (x_controllerAxis self)"
  define fz where "fz = OpenROVTeleop.z_gain self * axes joy ! nat (z_controllerAxis self)"
  define mz where "mz = OpenROVTeleop.yaw_gain self * axes joy ! nat (yaw_controllerAxis self)"
  define B :: real where "B = 10 ^ 300"
  have b: "\<bar>fx\<bar> \<le> B" "\<bar>fz\<bar> \<le> B" "\<bar>mz\<bar> \<le> B"
    using assms(2-4) unfolding fx_def fz_def mz_def B_def by blast+
  have "100 * B \<le> DBL_MAX" unfolding B_def by (rule DBL_MAX_lower)
  then have small: "finite_double x" if "\<bar>x\<bar> \<le> 100 * B" for x
    using that unfolding finite_double_def by (rule order_trans [rotated])
  have "finite_double fx" "finite_double fz" "finite_double mz"
    using b by (auto intro!: small)
  moreover have "determinant (allocation_matrix (45 / 1000)) \<noteq> 0"
    by (simp add: determinant_allocation_matrix)
  moreover have "list_all finite_double (inverse_doubles (allocation_matrix (45 / 1000)))"
    by (simp add: inverse_doubles_def allocation_matrix_def Let_def finite_double_small)
  moreover have "list_all finite_double
      (product_doubles (mat_inverse (allocation_matrix (45 / 1000))) (fx, fz, mz))"
    using b by (simp add: allocation_matrix_def Let_def) (intro conjI small; linarith)
  ultimately show ?thesis
    by (simp add: stays_finite_def Let_def assms(1) fx_def fz_def mz_def)
qed

lemma stays_finite_small:
  assumes "d self = 45 / 1000"
    and "\<bar>OpenROVTeleop.x_gain self * axes joy ! nat (x_controllerAxis self)\<bar> \<le> 1000"
    and "\<bar>OpenROVTeleop.z_gain self * axes joy ! nat (z_controllerAxis self)\<bar> \<le> 1000"
    and "\<bar>OpenROVTeleop.yaw_gain self * axes joy ! nat (yaw_controllerAxis self)\<bar> \<le> 1000"
  shows "stays_finite self joy"
proof -
  have k: "(1000::real) \<le> 10 ^ 300" by simp
  show ?thesis
    by (rule stays_finite_bounded [OF assms(1)])
      (rule order_trans [OF assms(2) k], rule order_trans [OF assms(3) k],
       rule order_trans [OF assms(4) k])
qed

lemma spin_Inr:
  assumes "spin self joys = Inr (self', out)"
  shows "same_settings self self'"
    and "0 \<le> lightVal self \<and> lightVal self \<le> 1 \<Longrightarrow> 0 \<le> lightVal self' \<and> lightVal self' \<le> 1"
    and "laserToggle self = oldLaserToggle self \<Longrightarrow> laserToggle self' = oldLaserToggle self'"
  using assms
proof (induction joys arbitrary: self out)
  case Nil
  { case 1 then show ?case by (simp add: same_settings_refl) }
  { case 2 then show ?case by simp }
  { case 3 then show ?case by simp }
next
  case (Cons joy joys)
  { case 1
    then obtain s1 o1 o2 where c: "joyCallback self joy = Inr (s1, o1)"
      and r: "spin s1 joys = Inr (self', o2)"
      by (auto simp: bind_result_eq_Inr split: prod.splits)
    from joyCallback_Inr(1) [OF c] Cons.IH(1) [OF r] show ?case
      by (rule same_settings_trans) }
  { case 2
    then obtain s1 o1 o2 where c: "joyCallback self joy = Inr (s1, o1)"
      and r: "spin s1 joys = Inr (self', o2)"
      by (auto simp: bind_result_eq_Inr split: prod.splits)
    from joyCallback_Inr(3,4) [OF c] Cons.IH(2) [OF _ r] show ?case by simp }
  { case 3
    then obtain s1 o1 o2 where c: "joyCallback self joy = Inr (s1, o1)"
      and r: "spin s1 joys = Inr (self', o2)"
      by (auto simp: bind_result_eq_Inr split: prod.splits)
    from joyCallback_Inr(5) [OF c 3(1)] Cons.IH(3) [OF _ r] show ?case by simp }
qed

lemma spin_returns:
  "\<forall>joy \<in> set joys. sample_fits self joy \<and> stays_finite self joy \<Longrightarrow>
   \<exists>self' out. spin self joys = Inr (self', out)"
proof (induction joys arbitrary: self)
  case Nil
  then show ?case by simp
next
  case (Cons joy joys)
  then obtain s1 o1 where c: "joyCallback self joy = Inr (s1, o1)"
    using joyCallback_returns_fits [of self joy] by auto
  from joyCallback_Inr(1) [OF c] Cons.prems
  have "\<forall>j \<in> set joys. sample_fits s1 j \<and> stays_finite s1 j"
    by (simp add: sample_fits_same_settings stays_finite_same_settings)
  from Cons.IH [OF this] obtain s2 o2 where "spin s1 joys = Inr (s2, o2)" by blast
  with c show ?case by simp
qed

text \<open>
  Claim C6 says that for every input sample each of the three pulse widths stored in the
  motor command lies in \<open>[1000, 2000]\<close>. With the forward gain set to \<open>10 ^ 300\<close> and the
  forward axis at \<open>10 ^ 10\<close>, the product of line 116 is beyond the range of \<open>double\<close>:
  no pulse width in range is stored.
\<close>

theorem motor_cmds_overflow_counterexample:
  "joyCallback (OpenROVTeleop_ctor (no_params\<lparr>ParameterServer.x_gain := Some (10 ^ 300)\<rparr>))
     \<lparr> axes = [0, 10 ^ 10, 0, 0, 0, 0, 0], buttons = [0, 0, 0, 0, 0] \<rparr> =
   Inl DoubleOutOfRange"
proof (rule joyCallback_not_finite)
  show "sample_fits (OpenROVTeleop_ctor (no_params\<lparr>ParameterServer.x_gain := Some (10 ^ 300)\<rparr>))
     \<lparr> axes = [0, 10 ^ 10, 0, 0, 0, 0, 0], buttons = [0, 0, 0, 0, 0] \<rparr>"
    by (simp add: sample_fits_def OpenROVTeleop_ctor_def no_params_def param_def)
  have "\<not> finite_double (10 ^ 300 * 10 ^ 10)"
    by (rule not_finite_double_large) simp
  then show "\<not> stays_finite (OpenROVTeleop_ctor (no_params\<lparr>ParameterServer.x_gain := Some (10 ^ 300)\<rparr>))
     \<lparr> axes = [0, 10 ^ 10, 0, 0, 0, 0, 0], buttons = [0, 0, 0, 0, 0] \<rparr>"
    by (simp add: stays_finite_def Let_def OpenROVTeleop_ctor_def no_params_def param_def)
qed

text \<open>
  Claim C6, amended. For every sample that has the channels \<open>joyCallback\<close> reads and for
  which every double of lines 116 to 131 (the three products of gain and axis, the inverse
  of the allocation matrix and its product with the wrench) is finite, the callback
  returns, and each of the three pulse widths it stores in \<open>motor_cmds\<close> lies in
  \<open>[1000, 2000]\<close>. No clamp is involved: the scale factor keeps every scaled fraction in
  \<open>[-1, 1]\<close>, so the conversion to \<open>int\<close> never overflows either.
\<close>

theorem motor_cmds_in_range:
  assumes "sample_fits self joy" and "stays_finite self joy"
  shows "\<exists>self' out P V S. joyCallback self joy = Inr (self', out) \<and>
     motor_cmds self' = (P, V, S) \<and>
     1000 \<le> P \<and> P \<le> 2000 \<and> 1000 \<le> V \<and> V \<le> 2000 \<and> 1000 \<le> S \<and> S \<le> 2000"
proof -
  from assms obtain self' out where c: "joyCallback self joy = Inr (self', out)"
    using joyCallback_returns_fits by blast
  from joyCallback_Inr(2) [OF c] c show ?thesis by blast
qed

theorem motor_cmds_in_range_witness:
  "\<exists>self' out P V S.
     joyCallback (OpenROVTeleop_ctor (no_params\<lparr>ParameterServer.x_gain := Some 40\<rparr>))
       \<lparr> axes = [1, 1, 0, 0, - 1, 0, 0], buttons = [0, 0, 0, 0, 0] \<rparr> = Inr (self', out) \<and>
     motor_cmds self' = (P, V, S) \<and>
     1000 \<le> P \<and> P \<le> 2000 \<and> 1000 \<le> V \<and> V \<le> 2000 \<and> 1000 \<le> S \<and> S \<le> 2000"
proof -
  have "stays_finite (OpenROVTeleop_ctor (no_params\<lparr>ParameterServer.x_gain := Some 40\<rparr>))
       \<lparr> axes = [1, 1, 0, 0, - 1, 0, 0], buttons = [0, 0, 0, 0, 0] \<rparr>"
    by (rule stays_finite_small)
      (simp_all add: OpenROVTeleop_ctor_def no_params_def param_def)
  with motor_cmds_in_range [of "OpenROVTeleop_ctor (no_params\<lparr>ParameterServer.x_gain := Some 40\<rparr>)"
      "\<lparr> axes = [1, 1, 0, 0, - 1, 0, 0], buttons = [0, 0, 0, 0, 0] \<rparr>"]
  show ?thesis
    by (simp add: sample_fits_def OpenROVTeleop_ctor_def no_params_def param_def)
qed

text \<open>
  Claim C8. Starting from the constructed node, after any sequence of samples, whatever
  their axis values, the light level lies in \<open>[0, 1]\<close>.
\<close>

theorem light_stays_in_range:
  assumes "spin (OpenROVTeleop_ctor nh) joys = Inr (self', out)"
  shows "0 \<le> lightVal self' \<and> lightVal self' \<le> 1"
  using spin_Inr(2) [OF assms] by (simp add: OpenROVTeleop_ctor_def)

theorem light_stays_in_range_witness:
  "\<exists>self' out.
     spin (OpenROVTeleop_ctor no_params)
       [\<lparr> axes = [0, 0, 0, 0, 0, 0, - 1], buttons = [0, 0, 0, 0, 0] \<rparr>,
        \<lparr> axes = [0, 0, 0, 0, 0, 0, 1], buttons = [0, 0, 0, 0, 0] \<rparr>,
        \<lparr> axes = [0, 0, 0, 0, 0, 0, 1], buttons = [0, 0, 0, 0, 0] \<rparr>] = Inr (self', out) \<and>
     0 \<le> lightVal self' \<and> lightVal self' \<le> 1"
proof -
  have "\<exists>self' out. spin (OpenROVTeleop_ctor no_params)
       [\<lparr> axes = [0, 0, 0, 0, 0, 0, - 1], buttons = [0, 0, 0, 0, 0] \<rparr>,
        \<lparr> axes = [0, 0, 0, 0, 0, 0, 1], buttons = [0, 0, 0, 0, 0] \<rparr>,
        \<lparr> axes = [0, 0, 0, 0, 0, 0, 1], buttons = [0, 0, 0, 0, 0] \<rparr>] = Inr (self', out)"
    by (rule spin_returns)
      (simp add: sample_fits_def stays_finite_small OpenROVTeleop_ctor_def no_params_def
        param_def)
  then show ?thesis using light_stays_in_range by blast
qed

text \<open>
  Claim C10. Starting from the constructed node, \<open>laserToggle.data == oldLaserToggle\<close>
  holds after every sequence of callbacks.
\<close>

theorem laser_guard_invariant:
  assumes "spin (OpenROVTeleop_ctor nh) joys = Inr (self', out)"
  shows "laserToggle self' = oldLaserToggle self'"
  using spin_Inr(3) [OF assms] by (simp add: OpenROVTeleop_ctor_def)

theorem laser_guard_invariant_witness:
  "\<exists>self' out.
     spin (OpenROVTeleop_ctor no_params)
       [\<lparr> axes = [0, 0, 0, 0, 0, 0, 0], buttons = [0, 0, 0, 0, 1] \<rparr>,
        \<lparr> axes = [0, 0, 0, 0, 0, 0, 0], buttons = [0, 0, 0, 0, 0] \<rparr>,
        \<lparr> axes = [0, 0, 0, 0, 0, 0, 0], buttons = [0, 0, 0, 0, 1] \<rparr>] = Inr (self', out) \<and>
     laserToggle self' = oldLaserToggle self'"
proof -
  have "\<exists>self' out. spin (OpenROVTeleop_ctor no_params)
       [\<lparr> axes = [0, 0, 0, 0, 0, 0, 0], buttons = [0, 0, 0, 0, 1] \<rparr>,
        \<lparr> axes = [0, 0, 0, 0, 0, 0, 0], buttons = [0, 0, 0, 0, 0] \<rparr>,
        \<lparr> axes = [0, 0, 0, 0, 0, 0, 0], buttons = [0, 0, 0, 0, 1] \<rparr>] = Inr (self', out)"
    by (rule spin_returns)
      (simp add: sample_fits_def stays_finite_small OpenROVTeleop_ctor_def no_params_def
        param_def)
  then show ?thesis using laser_guard_invariant by blast
qed

subsection \<open>Samples that are too short\<close>

text \<open>
  Claim C9 says that a sample whose axis sequence is shorter than a configured axis
  index requires is rejected with a configuration error, with the command left as it was
  and the process alive. The source has no such check: with the default settings and a
  stick that reports four axes, the read of \<open>axes[4]\<close> is out of bounds, which is
  undefined behaviour.
\<close>

theorem short_axes_counterexample:
  "joyCallback (OpenROVTeleop_ctor no_params)
     \<lparr> axes = [0, 0, 0, 0], buttons = [0, 0, 0, 0, 0] \<rparr> = Inl OutOfBoundsRead"
  by (simp add: joyCallback_def thruster_section_def desired_wrench_def vector_at_def
      OpenROVTeleop_ctor_def no_params_def param_def)

text \<open>
  Claim C9, amended. For every sample whose axis sequence is shorter than one of the
  three configured stick axis indices requires, \<open>joyCallback\<close> reads the axis sequence
  out of bounds without a check: the behaviour is undefined, no error is reported and
  nothing is guaranteed about the command.
\<close>

theorem short_axes_undefined:
  assumes "int (length (axes joy)) \<le> x_controllerAxis self \<or>
           int (length (axes joy)) \<le> z_controllerAxis self \<or>
           int (length (axes joy)) \<le> yaw_controllerAxis self"
  shows "joyCallback self joy = Inl OutOfBoundsRead"
proof -
  have "desired_wrench self joy = Inl OutOfBoundsRead"
    using assms by (auto simp: desired_wrench_def vector_at_def)
  then show ?thesis by (simp add: joyCallback_def thruster_section_def)
qed

theorem short_axes_undefined_witness:
  "joyCallback (OpenROVTeleop_ctor no_params) \<lparr> axes = [0, 0], buttons = [] \<rparr> =
     Inl OutOfBoundsRead"
  using short_axes_undefined [of "\<lparr> axes = [0, 0], buttons = [] \<rparr>" "OpenROVTeleop_ctor no_params"]
  by (simp add: OpenROVTeleop_ctor_def no_params_def param_def)

subsection \<open>The laser toggle\<close>

lemma thruster_forces_zero: "thruster_forces (allocation_matrix dd) (0, 0, 0) = (0, 0, 0)"
  by (simp add: thruster_forces_def allocation_matrix_def Let_def)

lemma esc_vals_zero: "esc_vals (0, 0, 0) = Inr (1500, 1500, 1500)"
  by (simp add: esc_vals_def limitThrusterSaturation_def pulse_ms_0)

lemma solve_allocation_zero:
  "solve_allocation (allocation_matrix (45 / 1000)) (0, 0, 0) = Inr (0, 0, 0)"
  using thruster_forces_zero [of "45 / 1000"]
  by (simp add: solve_allocation_def inverse_doubles_def allocation_matrix_def Let_def
      finite_double_small)

lemma thruster_section_idle:
  assumes "desired_wrench self joy = Inr (0, 0, 0)" and "d self = 45 / 1000"
  shows "thruster_section self joy =
     Inr (self\<lparr>A := Some (allocation_matrix (d self)), motor_cmds := (1500, 1500, 1500)\<rparr>)"
  using solve_allocation_zero
  by (simp add: thruster_section_def assms Let_def pct_thrust_def
      computePctThrustGraupner230860_eq computePctThrustGraupner230357_eq esc_vals_zero)

lemma laser_toggles_append:
  "laser_toggles (xs @ ys) = laser_toggles xs @ laser_toggles ys"
  by (induction xs rule: laser_toggles.induct) simp_all

lemma lights_section_out:
  "lights_section self joy = Inr (self', out) \<Longrightarrow> laser_toggles out = []"
  by (auto simp: lights_section_def bind_result_eq_Inr Let_def split: if_splits)

lemma lasers_section_out:
  assumes "lasers_section self joy = Inr (self', out)"
    and "laserToggle self = oldLaserToggle self"
  shows "out = (if buttons joy ! nat (laserToggleButton self) \<noteq> 0
                then [LaserToggle (if laserToggle self = 0 then 255 else 0)] else [])"
  using assms
  by (auto simp: lasers_section_def bind_result_eq_Inr vector_at_def split: if_splits)

lemma joyCallback_laser_out:
  assumes "joyCallback self joy = Inr (self', out)"
    and "laserToggle self = oldLaserToggle self"
  shows "laser_toggles out =
     (if buttons joy ! nat (laserToggleButton self) \<noteq> 0
      then [if laserToggle self = 0 then 255 else 0] else [])"
proof -
  from assms(1) obtain s1 s2 o2 o3 where
    t: "thruster_section self joy = Inr s1" and
    l: "lights_section s1 joy = Inr (s2, o2)" and
    z: "lasers_section s2 joy = Inr (self', o3)" and
    out: "out = o2 @ o3"
    by (auto simp: joyCallback_def bind_result_eq_Inr split: prod.splits)
  from thruster_section_Inr [OF t] lights_section_Inr [OF l]
  have eq: "laserToggle s2 = laserToggle self" "oldLaserToggle s2 = oldLaserToggle self"
    "laserToggleButton s2 = laserToggleButton self"
    by (auto simp: same_settings_def)
  from lasers_section_out [OF z] assms(2) eq lights_section_out [OF l] out
  show ?thesis by (simp add: laser_toggles_append)
qed

lemma toggle_on_every_pressed_sample:
  assumes "spin self joys = Inr (self', out)"
    and "laserToggle self = oldLaserToggle self"
  shows "length (laser_toggles out) =
     length (filter (\<lambda>joy. buttons joy ! nat (laserToggleButton self) \<noteq> 0) joys)"
  using assms
proof (induction joys arbitrary: self out)
  case Nil
  then show ?case by simp
next
  case (Cons joy joys)
  then obtain s1 o1 o2 where c: "joyCallback self joy = Inr (s1, o1)"
    and r: "spin s1 joys = Inr (self', o2)" and out: "out = o1 @ o2"
    by (auto simp: bind_result_eq_Inr split: prod.splits)
  from joyCallback_Inr(1,5) [OF c] Cons.prems(2)
  have inv: "laserToggle s1 = oldLaserToggle s1"
    and btn: "laserToggleButton s1 = laserToggleButton self"
    by (simp_all add: same_settings_def)
  from Cons.IH [OF r inv] joyCallback_laser_out [OF c Cons.prems(2)] out btn
  show ?case by (simp add: laser_toggles_append)
qed


lemma held_first_sample:
  "joyCallback (OpenROVTeleop_ctor no_params)
     \<lparr> axes = [0, 0, 0, 0, 0, 0, 0], buttons = [0, 0, 0, 0, 1] \<rparr> =
   Inr ((OpenROVTeleop_ctor no_params)
          \<lparr> A := Some (allocation_matrix (45 / 1000)), motor_cmds := (1500, 1500, 1500),
            laserToggle := 255, oldLaserToggle := 255 \<rparr>,
        [LaserToggle 255])"
proof -
  have "desired_wrench (OpenROVTeleop_ctor no_params)
     \<lparr> axes = [0, 0, 0, 0, 0, 0, 0], buttons = [0, 0, 0, 0, 1] \<rparr> = Inr (0, 0, 0)"
    by (simp add: desired_wrench_def OpenROVTeleop_ctor_def no_params_def param_def vector_at_def
        double_result_finite finite_double_small)
  from thruster_section_idle [OF this] show ?thesis
    by (simp add: joyCallback_def lights_section_def lasers_section_def
      vector_at_def OpenROVTeleop_ctor_def no_params_def param_def)
qed

lemma held_second_sample:
  "joyCallback ((OpenROVTeleop_ctor no_params)
          \<lparr> A := Some (allocation_matrix (45 / 1000)), motor_cmds := (1500, 1500, 1500),
            laserToggle := 255, oldLaserToggle := 255 \<rparr>)
     \<lparr> axes = [0, 0, 0, 0, 0, 0, 0], buttons = [0, 0, 0, 0, 1] \<rparr> =
   Inr ((OpenROVTeleop_ctor no_params)
          \<lparr> A := Some (allocation_matrix (45 / 1000)), motor_cmds := (1500, 1500, 1500)\<rparr>,
        [LaserToggle 0])"
proof -
  have "desired_wrench ((OpenROVTeleop_ctor no_params)
          \<lparr> A := Some (allocation_matrix (45 / 1000)), motor_cmds := (1500, 1500, 1500),
            laserToggle := 255, oldLaserToggle := 255 \<rparr>)
     \<lparr> axes = [0, 0, 0, 0, 0, 0, 0], buttons = [0, 0, 0, 0, 1] \<rparr> = Inr (0, 0, 0)"
    by (simp add: desired_wrench_def OpenROVTeleop_ctor_def no_params_def param_def vector_at_def
        double_result_finite finite_double_small)
  from thruster_section_idle [OF this] show ?thesis
    by (simp add: joyCallback_def lights_section_def lasers_section_def
      vector_at_def OpenROVTeleop_ctor_def no_params_def param_def)
qed

text \<open>
  Claim C3 expects one toggle for a press that lasts several samples. Since the guard
  \<open>laserToggle.data == oldLaserToggle\<close> always holds, every sample with the button down
  toggles the laser (\<open>toggle_on_every_pressed_sample\<close>): two samples of one held press
  switch the laser on and off again.
\<close>

theorem held_button_toggles_twice:
  "spin (OpenROVTeleop_ctor no_params)
     [\<lparr> axes = [0, 0, 0, 0, 0, 0, 0], buttons = [0, 0, 0, 0, 1] \<rparr>,
      \<lparr> axes = [0, 0, 0, 0, 0, 0, 0], buttons = [0, 0, 0, 0, 1] \<rparr>] =
   Inr ((OpenROVTeleop_ctor no_params)
          \<lparr> A := Some (allocation_matrix (45 / 1000)), motor_cmds := (1500, 1500, 1500)\<rparr>,
        [LaserToggle 255, LaserToggle 0])"
  using held_first_sample held_second_sample by simp

end
